theory Spec2Isabelle
  imports Main "HOL-Library.Sublist" "HOL-Library.Char_ord" "HOL-Library.List_Lexorder"
begin

section \<open>Structured documents\<close>

text \<open>
  The values that \<^verbatim>\<open>yaml.safe_load\<close> and \<^verbatim>\<open>json.loads\<close> hand to the code: null,
  booleans, integers, strings, lists and mappings. A mapping is an association list in
  insertion order, as a Python \<^verbatim>\<open>dict\<close> is; its keys are strings or integers (the
  hashable scalars a YAML document commonly uses as keys). Floating point scalars are
  left out: no function of the repository computes with them.
\<close>

datatype key = KStr string | KInt int

datatype pyval =
    PNone
  | PBool bool
  | PInt int
  | PStr string
  | PList "pyval list"
  | PDict "(key \<times> pyval) list"

type_synonym dict = "(key \<times> pyval) list"

text \<open>\<^verbatim>\<open>d[k] = v\<close>: an existing key keeps its position, a new key goes last.\<close>

fun dict_set :: "('k \<times> 'v) list \<Rightarrow> 'k \<Rightarrow> 'v \<Rightarrow> ('k \<times> 'v) list" where
  "dict_set [] k v = [(k, v)]"
| "dict_set ((k', v') # d) k v =
     (if k' = k then (k', v) # d else (k', v') # dict_set d k v)"

text \<open>\<^verbatim>\<open>d.update(other)\<close>: the items of \<open>other\<close> are stored one by one, in order.\<close>

fun dict_update :: "('k \<times> 'v) list \<Rightarrow> ('k \<times> 'v) list \<Rightarrow> ('k \<times> 'v) list" where
  "dict_update d [] = d"
| "dict_update d ((k, v) # other) = dict_update (dict_set d k v) other"

section \<open>Extraction and construction along a key path\<close>

text \<open>
  \<^verbatim>\<open>
  def get_nested_value(data, keys):
      current = data
      for key in keys:
          if isinstance(current, dict) and key in current:
              current = current[key]
          else:
              return None
      return current
  \<close>
  The loop is a recursion on the key list; \<open>None\<close> is the Python object, a value like
  any other.
\<close>

fun get_nested_value :: "pyval \<Rightarrow> key list \<Rightarrow> pyval" where
  "get_nested_value current [] = current"
| "get_nested_value current (key # keys) =
     (case current of
        PDict d \<Rightarrow>
          (case map_of d key of
             Some v \<Rightarrow> get_nested_value v keys
           | None \<Rightarrow> PNone)
      | _ \<Rightarrow> PNone)"

text \<open>
  \<^verbatim>\<open>
  def create_nested_structure(keys, value):
      if not keys:
          return value
      result = {}
      current = result
      for i, key in enumerate(keys[:-1]):
          current[key] = {}
          current = current[key]
      current[keys[-1]] = value
      return result
  \<close>
  \<open>current\<close> is an alias of a mapping inside \<open>result\<close>. The model keeps \<open>result\<close> as a
  value and \<open>current\<close> as the key path that leads from \<open>result\<close> to the aliased mapping;
  \<open>store_at result current key v\<close> is \<open>result\<close> after the assignment
  \<^verbatim>\<open>current[key] = v\<close>.
\<close>

fun store_at :: "pyval \<Rightarrow> key list \<Rightarrow> key \<Rightarrow> pyval \<Rightarrow> pyval" where
  "store_at (PDict d) [] k v = PDict (dict_set d k v)"
| "store_at (PDict d) (p # ps) k v =
     (case map_of d p of
        Some sub \<Rightarrow> PDict (dict_set d p (store_at sub ps k v))
      | None \<Rightarrow> PDict d)"
| "store_at x ps k v = x"

text \<open>The loop over \<^verbatim>\<open>keys[:-1]\<close>, on the state \<open>(result, current)\<close>.\<close>

fun descend :: "key list \<Rightarrow> pyval \<times> key list \<Rightarrow> pyval \<times> key list" where
  "descend [] (result, current) = (result, current)"
| "descend (key # rest) (result, current) =
     descend rest (store_at result current key (PDict []), current @ [key])"

definition create_nested_structure :: "key list \<Rightarrow> pyval \<Rightarrow> pyval" where
  "create_nested_structure keys val =
     (if keys = [] then val
      else (case descend (butlast keys) (PDict [], []) of
              (result, current) \<Rightarrow> store_at result current (last keys) val))"

text \<open>
  Two notions in the words of the specification, to compare the code with. Resolution of
  a key path keeps "not found" apart from every value: at each step, if the current value
  is a mapping and contains the next key, descend; otherwise fail.
\<close>

fun resolve :: "pyval \<Rightarrow> key list \<Rightarrow> pyval option" where
  "resolve current [] = Some current"
| "resolve (PDict d) (key # keys) =
     (case map_of d key of Some v \<Rightarrow> resolve v keys | None \<Rightarrow> None)"
| "resolve x (key # keys) = None"

text \<open>
  The minimal nested skeleton for a key path: each key but the last holds a mapping with
  the next key as its only entry, the last key holds the leaf.
\<close>

fun skeleton :: "key list \<Rightarrow> pyval \<Rightarrow> pyval" where
  "skeleton [] leaf = leaf"
| "skeleton (k # ks) leaf = PDict [(k, skeleton ks leaf)]"

section \<open>Strings\<close>

text \<open>
  Characters are bytes, and the case conversions below act on the ASCII letters only.
  \<^verbatim>\<open>s.replace(old, new)\<close> scans \<open>s\<close> from the left and replaces each occurrence of
  \<open>old\<close> it meets, going on after the occurrence; with an empty \<open>old\<close> it puts
  \<open>new\<close> before every character and at the end.
\<close>

function replace :: "string \<Rightarrow> string \<Rightarrow> string \<Rightarrow> string" where
  "replace s old new =
     (if old = [] then new @ concat (map (\<lambda>c. c # new) s)
      else if prefix old s then new @ replace (drop (length old) s) old new
      else (case s of [] \<Rightarrow> [] | c # cs \<Rightarrow> c # replace cs old new))"
  by pat_completeness auto
termination
  by (relation "measure (\<lambda>(s, old, new). length s)") (auto simp: prefix_def)

declare replace.simps [simp del]

definition lower_char :: "char \<Rightarrow> char" where
  "lower_char c =
     (if CHR ''A'' \<le> c \<and> c \<le> CHR ''Z'' then char_of (of_char c + (32 :: nat)) else c)"

definition upper_char :: "char \<Rightarrow> char" where
  "upper_char c =
     (if CHR ''a'' \<le> c \<and> c \<le> CHR ''z'' then char_of (of_char c - (32 :: nat)) else c)"

definition lower :: "string \<Rightarrow> string" where
  "lower s = map lower_char s"

definition upper :: "string \<Rightarrow> string" where
  "upper s = map upper_char s"

text \<open>\<^verbatim>\<open>str(n)\<close> of an integer: its decimal digits, with a minus sign when negative.\<close>

fun digits :: "nat \<Rightarrow> string" where
  "digits n =
     (if n < 10 then [char_of (48 + n)]
      else digits (n div 10) @ [char_of (48 + n mod 10)])"

declare digits.simps [simp del]

definition str_int :: "int \<Rightarrow> string" where
  "str_int i = (if i < 0 then CHR ''-'' # digits (nat (- i)) else digits (nat i))"

section \<open>The Nested-Value Bridge\<close>

text \<open>
  The exceptions of the model, all instances of Python's \<open>Exception\<close>:
  \<open>OtherException\<close> stands for every class without a handler of its own
  (\<open>PermissionError\<close>, \<open>UnicodeDecodeError\<close>, \<open>AttributeError\<close>, ...). The clauses of
  the \<^verbatim>\<open>try\<close> statement name classes; \<open>isinstance\<close> is the subclass test they apply.
  Signals that are not instances of \<open>Exception\<close> (\<open>KeyboardInterrupt\<close>, \<open>SystemExit\<close>)
  arrive from outside the sequence of calls and are not part of the model.
\<close>

datatype exn =
    FileNotFoundError
  | NotADirectoryError
  | ValueError
  | TypeError
  | KeyError
  | UnicodeEncodeError
  | RequestException
  | YAMLError
  | OtherException

datatype exn_class = FileNotFoundError_class | RequestException_class | YAMLError_class | Exception_class

fun isinstance :: "exn \<Rightarrow> exn_class \<Rightarrow> bool" where
  "isinstance e Exception_class = True"
| "isinstance e FileNotFoundError_class = (e = FileNotFoundError)"
| "isinstance e RequestException_class = (e = RequestException)"
| "isinstance e YAMLError_class = (e = YAMLError)"

text \<open>
  The request handed to \<^verbatim>\<open>requests\<close> and the response it returns. \<open>req_json\<close> is the
  \<^verbatim>\<open>json=\<close> payload, absent for \<^verbatim>\<open>requests.get\<close>.
\<close>

record request =
  req_method :: string
  req_url :: string
  req_headers :: "(string \<times> string) list"
  req_params :: "dict option"
  req_json :: "dict option"

record response =
  status_code :: int
  content :: string

text \<open>
  The library calls and the outside world are parameters of the model: each call either
  returns or raises. \<open>json_loads\<close> is taken where the code uses it, on the serialized form
  of a non-empty mapping after substitution; that text still starts with an opening brace
  and a quote, so when it parses it parses to a mapping.
\<close>

record env =
  open_read :: "string \<Rightarrow> exn + string"
  yaml_safe_load :: "string \<Rightarrow> exn + pyval"
  py_str :: "pyval \<Rightarrow> string"
  json_dumps :: "dict \<Rightarrow> exn + string"
  json_loads :: "string \<Rightarrow> exn + dict"
  http_request :: "request \<Rightarrow> exn + response"
  raise_for_status :: "response \<Rightarrow> exn option"
  response_json :: "response \<Rightarrow> exn + pyval"
  open_write :: "string \<Rightarrow> exn option"
  yaml_dump :: "pyval \<Rightarrow> exn + string"

text \<open>The arguments of \<open>process_yaml_with_api\<close>, by their names.\<close>

record call =
  input_yaml_path :: string
  output_yaml_path :: string
  input_keys :: "key list"
  output_keys :: "key list"
  api_url :: string
  api_method :: string
  api_headers :: "(string \<times> string) list option"
  api_params :: "dict option"
  request_body_template :: "dict option"

text \<open>The lines the function prints, by the \<^verbatim>\<open>print\<close> call that writes them.\<close>

datatype msg =
    KeyPathNotFound string
  | Extracted pyval
  | ApiCall string string
  | ResponseStatus int
  | ResponseBody pyval
  | Saved string
  | FileNotFound string
  | ApiError exn
  | YamlError exn
  | Unexpected exn

text \<open>
  What a call leaves behind: the printed lines, the requests handed to the network, the
  states of the output file (\<open>[]\<close> once opened for writing, then the dumped text), and
  the state of the caller's \<open>api_params\<close> object.
\<close>

record effects =
  printed :: "msg list"
  sent :: "request list"
  written :: "(string \<times> string) list"
  caller_params :: "dict option"

definition say :: "msg \<Rightarrow> effects \<Rightarrow> effects" where
  "say m fx = fx\<lparr>printed := printed fx @ [m]\<rparr>"

text \<open>\<^verbatim>\<open>x or default\<close> for an optional list or mapping: \<open>None\<close> and the empty one are false.\<close>

fun or_default :: "'a list option \<Rightarrow> 'a list \<Rightarrow> 'a list" where
  "or_default (Some (x # xs)) dflt = x # xs"
| "or_default other dflt = dflt"

text \<open>\<^verbatim>\<open>' -> '.join(input_keys)\<close> raises \<open>TypeError\<close> on an item that is not a string.\<close>

fun join_keys :: "key list \<Rightarrow> exn + string" where
  "join_keys [] = Inr []"
| "join_keys (KInt i # ks) = Inl TypeError"
| "join_keys [KStr s] = Inr s"
| "join_keys (KStr s # ks) =
     (case join_keys ks of Inl e \<Rightarrow> Inl e | Inr t \<Rightarrow> Inr (s @ '' -> '' @ t))"

text \<open>
  Step 1 and the lookup of step 2:
  \<^verbatim>\<open>
  with open(input_yaml_path, 'r', encoding='utf-8') as file:
      input_data = yaml.safe_load(file)
  \<close>
\<close>

definition load_input :: "env \<Rightarrow> string \<Rightarrow> exn + pyval" where
  "load_input env path =
     (case open_read env path of
        Inl e \<Rightarrow> Inl e
      | Inr text \<Rightarrow> yaml_safe_load env text)"

text \<open>
  Step 3:
  \<^verbatim>\<open>
  if request_body_template:
      request_body = json.loads(
          json.dumps(request_body_template).replace('{input_text}', str(input_text)))
  else:
      request_body = {"text": input_text}
  \<close>
\<close>

definition substitute :: "env \<Rightarrow> string \<Rightarrow> pyval \<Rightarrow> string" where
  "substitute env serialized input_text =
     replace serialized ''{input_text}'' (py_str env input_text)"

definition build_request_body :: "env \<Rightarrow> dict option \<Rightarrow> pyval \<Rightarrow> exn + dict" where
  "build_request_body env template input_text =
     (case template of
        Some (item # items) \<Rightarrow>
          (case json_dumps env (item # items) of
             Inl e \<Rightarrow> Inl e
           | Inr serialized \<Rightarrow> json_loads env (substitute env serialized input_text))
      | _ \<Rightarrow> Inr [(KStr ''text'', input_text)])"

text \<open>
  Step 4:
  \<^verbatim>\<open>
  if api_method.upper() == "GET":
      params = api_params or {}
      params.update(request_body)
      response = requests.get(api_url, headers=headers, params=params)
  else:
      response = requests.request(method=api_method.upper(), url=api_url,
          headers=headers, json=request_body, params=api_params)
  \<close>
  With a non-empty \<open>api_params\<close>, \<open>params\<close> is the caller's own object and the update is
  made on it; otherwise \<open>params\<close> is a fresh mapping. The update comes before the
  request, so it stays when the request raises.
\<close>

definition dispatch ::
  "env \<Rightarrow> call \<Rightarrow> (string \<times> string) list \<Rightarrow> dict \<Rightarrow> effects \<Rightarrow> (exn + response) \<times> effects" where
  "dispatch env c headers request_body fx =
     (if upper (api_method c) = ''GET'' then
        (let params = dict_update (or_default (api_params c) []) request_body;
             fx1 = (case api_params c of
                      Some (item # items) \<Rightarrow> fx\<lparr>caller_params := Some params\<rparr>
                    | _ \<Rightarrow> fx);
             req = \<lparr>req_method = ''GET'', req_url = api_url c, req_headers = headers,
                    req_params = Some params, req_json = None\<rparr>
         in (http_request env req, fx1\<lparr>sent := sent fx1 @ [req]\<rparr>))
      else
        (let req = \<lparr>req_method = upper (api_method c), req_url = api_url c,
                    req_headers = headers, req_params = api_params c,
                    req_json = Some request_body\<rparr>
         in (http_request env req, fx\<lparr>sent := sent fx @ [req]\<rparr>)))"

text \<open>
  Steps 5 and 6, from the response on:
  \<^verbatim>\<open>
  response.raise_for_status()
  api_result = response.json()
  print(...); print(...)
  output_data = create_nested_structure(output_keys, api_result)
  with open(output_yaml_path, 'w', encoding='utf-8') as file:
      yaml.dump(output_data, file, default_flow_style=False, allow_unicode=True)
  print(...)
  return True
  \<close>
\<close>

definition save_response :: "env \<Rightarrow> call \<Rightarrow> response \<Rightarrow> effects \<Rightarrow> (exn + bool) \<times> effects" where
  "save_response env c resp fx =
     (case raise_for_status env resp of
        Some e \<Rightarrow> (Inl e, fx)
      | None \<Rightarrow>
     (case response_json env resp of
        Inl e \<Rightarrow> (Inl e, fx)
      | Inr api_result \<Rightarrow>
     (let fx1 = say (ResponseBody api_result) (say (ResponseStatus (status_code resp)) fx);
          output_data = create_nested_structure (output_keys c) api_result
      in case open_write env (output_yaml_path c) of
           Some e \<Rightarrow> (Inl e, fx1)
         | None \<Rightarrow>
      (let fx2 = fx1\<lparr>written := written fx1 @ [(output_yaml_path c, [])]\<rparr>
       in case yaml_dump env output_data of
            Inl e \<Rightarrow> (Inl e, fx2)
          | Inr text \<Rightarrow>
              (Inr True,
               say (Saved (output_yaml_path c))
                 (fx2\<lparr>written := written fx2 @ [(output_yaml_path c, text)]\<rparr>))))))"

text \<open>The body of the \<^verbatim>\<open>try\<close> statement: it returns a boolean or raises.\<close>

definition try_body :: "env \<Rightarrow> call \<Rightarrow> effects \<Rightarrow> (exn + bool) \<times> effects" where
  "try_body env c fx =
     (case load_input env (input_yaml_path c) of
        Inl e \<Rightarrow> (Inl e, fx)
      | Inr input_data \<Rightarrow>
     (let input_text = get_nested_value input_data (input_keys c) in
      if input_text = PNone then
        (case join_keys (input_keys c) of
           Inl e \<Rightarrow> (Inl e, fx)
         | Inr path \<Rightarrow> (Inr False, say (KeyPathNotFound path) fx))
      else
        (let fx1 = say (Extracted input_text) fx;
             headers = or_default (api_headers c) [(''Content-Type'', ''application/json'')]
         in case build_request_body env (request_body_template c) input_text of
              Inl e \<Rightarrow> (Inl e, fx1)
            | Inr request_body \<Rightarrow>
                (case dispatch env c headers request_body
                        (say (ApiCall (api_method c) (api_url c)) fx1) of
                   (Inl e, fx2) \<Rightarrow> (Inl e, fx2)
                 | (Inr resp, fx2) \<Rightarrow> save_response env c resp fx2))))"

text \<open>
  The handlers, in their order; an exception that no clause matches propagates.
  \<^verbatim>\<open>
  except FileNotFoundError:            print(...); return False
  except requests.RequestException:    print(...); return False
  except yaml.YAMLError:               print(...); return False
  except Exception:                    print(...); return False
  \<close>
\<close>

definition handlers :: "call \<Rightarrow> exn \<Rightarrow> effects \<Rightarrow> (exn + bool) \<times> effects" where
  "handlers c e fx =
     (if isinstance e FileNotFoundError_class then
        (Inr False, say (FileNotFound (input_yaml_path c)) fx)
      else if isinstance e RequestException_class then (Inr False, say (ApiError e) fx)
      else if isinstance e YAMLError_class then (Inr False, say (YamlError e) fx)
      else if isinstance e Exception_class then (Inr False, say (Unexpected e) fx)
      else (Inl e, fx))"

definition process_yaml_with_api :: "env \<Rightarrow> call \<Rightarrow> (exn + bool) \<times> effects" where
  "process_yaml_with_api env c =
     (case try_body env c
             \<lparr>printed = [], sent = [], written = [], caller_params = api_params c\<rparr> of
        (Inr b, fx) \<Rightarrow> (Inr b, fx)
      | (Inl e, fx) \<Rightarrow> handlers c e fx)"

text \<open>The printed lines that report a failure: the one of step 2 and those of the handlers.\<close>

fun diagnostic :: "msg \<Rightarrow> bool" where
  "diagnostic (KeyPathNotFound path) = True"
| "diagnostic (FileNotFound path) = True"
| "diagnostic (ApiError e) = True"
| "diagnostic (YamlError e) = True"
| "diagnostic (Unexpected e) = True"
| "diagnostic m = False"

text \<open>
  \<open>process_yaml_with_api\<close> above is the function on a standard output that accepts
  every line. A \<^verbatim>\<open>print\<close> can raise (\<open>UnicodeEncodeError\<close> on a text the standard
  output cannot encode, \<open>ValueError\<close> on a closed one). Below, the standard output is a
  parameter: \<open>stdout m\<close> is the exception that printing the line \<open>m\<close> raises, if any.
  A print inside the \<^verbatim>\<open>try\<close> statement that raises is one more step of the body that
  raises. A print inside a handler that raises leaves the function: the statement
  \<^verbatim>\<open>return False\<close> after it is not reached and no clause is around it.
\<close>

definition emit :: "(msg \<Rightarrow> exn option) \<Rightarrow> msg \<Rightarrow> effects \<Rightarrow> exn + effects" where
  "emit stdout m fx = (case stdout m of Some e \<Rightarrow> Inl e | None \<Rightarrow> Inr (say m fx))"

definition save_response_on ::
  "(msg \<Rightarrow> exn option) \<Rightarrow> env \<Rightarrow> call \<Rightarrow> response \<Rightarrow> effects \<Rightarrow> (exn + bool) \<times> effects" where
  "save_response_on stdout env c resp fx =
     (case raise_for_status env resp of
        Some e \<Rightarrow> (Inl e, fx)
      | None \<Rightarrow>
     (case response_json env resp of
        Inl e \<Rightarrow> (Inl e, fx)
      | Inr api_result \<Rightarrow>
     (case emit stdout (ResponseStatus (status_code resp)) fx of
        Inl e \<Rightarrow> (Inl e, fx)
      | Inr fx1 \<Rightarrow>
     (case emit stdout (ResponseBody api_result) fx1 of
        Inl e \<Rightarrow> (Inl e, fx1)
      | Inr fx2 \<Rightarrow>
     (let output_data = create_nested_structure (output_keys c) api_result
      in case open_write env (output_yaml_path c) of
           Some e \<Rightarrow> (Inl e, fx2)
         | None \<Rightarrow>
      (let fx3 = fx2\<lparr>written := written fx2 @ [(output_yaml_path c, [])]\<rparr>
       in case yaml_dump env output_data of
            Inl e \<Rightarrow> (Inl e, fx3)
          | Inr text \<Rightarrow>
       (let fx4 = fx3\<lparr>written := written fx3 @ [(output_yaml_path c, text)]\<rparr>
        in case emit stdout (Saved (output_yaml_path c)) fx4 of
             Inl e \<Rightarrow> (Inl e, fx4)
           | Inr fx5 \<Rightarrow> (Inr True, fx5))))))))"

definition try_body_on ::
  "(msg \<Rightarrow> exn option) \<Rightarrow> env \<Rightarrow> call \<Rightarrow> effects \<Rightarrow> (exn + bool) \<times> effects" where
  "try_body_on stdout env c fx =
     (case load_input env (input_yaml_path c) of
        Inl e \<Rightarrow> (Inl e, fx)
      | Inr input_data \<Rightarrow>
     (let input_text = get_nested_value input_data (input_keys c) in
      if input_text = PNone then
        (case join_keys (input_keys c) of
           Inl e \<Rightarrow> (Inl e, fx)
         | Inr path \<Rightarrow>
             (case emit stdout (KeyPathNotFound path) fx of
                Inl e \<Rightarrow> (Inl e, fx)
              | Inr fx1 \<Rightarrow> (Inr False, fx1)))
      else
        (case emit stdout (Extracted input_text) fx of
           Inl e \<Rightarrow> (Inl e, fx)
         | Inr fx1 \<Rightarrow>
        (let headers = or_default (api_headers c) [(''Content-Type'', ''application/json'')]
         in case build_request_body env (request_body_template c) input_text of
              Inl e \<Rightarrow> (Inl e, fx1)
            | Inr request_body \<Rightarrow>
                (case emit stdout (ApiCall (api_method c) (api_url c)) fx1 of
                   Inl e \<Rightarrow> (Inl e, fx1)
                 | Inr fx2 \<Rightarrow>
                (case dispatch env c headers request_body fx2 of
                   (Inl e, fx3) \<Rightarrow> (Inl e, fx3)
                 | (Inr resp, fx3) \<Rightarrow> save_response_on stdout env c resp fx3))))))"

text \<open>\<^verbatim>\<open>print(...); return False\<close> in a handler.\<close>

definition print_return_False ::
  "(msg \<Rightarrow> exn option) \<Rightarrow> msg \<Rightarrow> effects \<Rightarrow> (exn + bool) \<times> effects" where
  "print_return_False stdout m fx =
     (case emit stdout m fx of
        Inl e \<Rightarrow> (Inl e, fx)
      | Inr fx1 \<Rightarrow> (Inr False, fx1))"

definition handlers_on ::
  "(msg \<Rightarrow> exn option) \<Rightarrow> call \<Rightarrow> exn \<Rightarrow> effects \<Rightarrow> (exn + bool) \<times> effects" where
  "handlers_on stdout c e fx =
     (if isinstance e FileNotFoundError_class then
        print_return_False stdout (FileNotFound (input_yaml_path c)) fx
      else if isinstance e RequestException_class then print_return_False stdout (ApiError e) fx
      else if isinstance e YAMLError_class then print_return_False stdout (YamlError e) fx
      else if isinstance e Exception_class then print_return_False stdout (Unexpected e) fx
      else (Inl e, fx))"

definition process_yaml_with_api_on ::
  "(msg \<Rightarrow> exn option) \<Rightarrow> env \<Rightarrow> call \<Rightarrow> (exn + bool) \<times> effects" where
  "process_yaml_with_api_on stdout env c =
     (case try_body_on stdout env c
             \<lparr>printed = [], sent = [], written = [], caller_params = api_params c\<rparr> of
        (Inr b, fx) \<Rightarrow> (Inr b, fx)
      | (Inl e, fx) \<Rightarrow> handlers_on stdout c e fx)"

section \<open>The File Locator\<close>

text \<open>
  \<^verbatim>\<open>Path.suffix\<close> and \<^verbatim>\<open>Path.stem\<close> of a file name, as \<^verbatim>\<open>pathlib\<close> defines them: the
  name is split at its last dot, unless that dot is the first or the last character.
  \<open>rfind\<close> is \<^verbatim>\<open>str.rfind\<close> of one character, with \<open>None\<close> for \<open>-1\<close>.
\<close>

fun rfind :: "char \<Rightarrow> string \<Rightarrow> nat option" where
  "rfind c [] = None"
| "rfind c (x # xs) =
     (case rfind c xs of
        Some i \<Rightarrow> Some (Suc i)
      | None \<Rightarrow> if x = c then Some 0 else None)"

definition path_suffix :: "string \<Rightarrow> string" where
  "path_suffix name =
     (case rfind CHR ''.'' name of
        Some i \<Rightarrow> if 0 < i \<and> i < length name - 1 then drop i name else []
      | None \<Rightarrow> [])"

definition path_stem :: "string \<Rightarrow> string" where
  "path_stem name =
     (case rfind CHR ''.'' name of
        Some i \<Rightarrow> if 0 < i \<and> i < length name - 1 then take i name else name
      | None \<Rightarrow> name)"

text \<open>
  A directory entry is known by its name and by whether it is a regular file. The search
  path is missing, or something that is not a directory, or a directory with its entries
  in the order \<^verbatim>\<open>iterdir\<close> yields them; \<open>absolute\<close> gives the text of
  \<^verbatim>\<open>str(file_path.absolute())\<close> for an entry name. The directory does not change during a
  call.
\<close>

record entry =
  ename :: string
  is_file :: bool

datatype path_kind = Missing | NotDir | Dir "entry list"

record search_dir =
  kind :: path_kind
  absolute :: "string \<Rightarrow> string"

text \<open>\<^verbatim>\<open>target_dir.iterdir()\<close>: listing something that is not a directory raises.\<close>

fun iterdir :: "search_dir \<Rightarrow> exn + entry list" where
  "iterdir d =
     (case kind d of
        Dir es \<Rightarrow> Inr es
      | NotDir \<Rightarrow> Inl NotADirectoryError
      | Missing \<Rightarrow> Inl FileNotFoundError)"

text \<open>
  The table: its column names, and its rows by position, each a map from column names
  to cells. Row labels are the positions, as in a table with the default index. A cell is
  absent (\<open>None\<close>), an integer or a text; \<open>cell_str\<close> is \<^verbatim>\<open>str\<close> of a cell, as the
  f-string of the file pattern applies it. In a well-formed table every row has a cell
  for each column and no other. The cells are read as they are stored, which is how
  \<^verbatim>\<open>df.iterrows()\<close> yields the rows of a table that has a column of object dtype. (In
  a table whose columns are all numeric it yields every row in the common dtype of the
  columns, so that an integer identifier beside a float column is read as a float, 7 as
  7.0; such tables are outside this model.)
\<close>

datatype cell = CNone | CInt int | CStr string

type_synonym row = "string \<rightharpoonup> cell"

record table =
  columns :: "string list"
  rows :: "row list"


fun cell_str :: "cell \<Rightarrow> string" where
  "cell_str CNone = ''None''"
| "cell_str (CInt i) = str_int i"
| "cell_str (CStr s) = s"

text \<open>
  \<^verbatim>\<open>df.at[idx, col] = v\<close>, on a table whose row labels are the positions and into a
  column that can hold a text, and \<^verbatim>\<open>df[col] = None\<close> for a new column. (\<^verbatim>\<open>df.at\<close>
  writes by label, into every row that carries the label, and recent versions of pandas
  raise \<open>TypeError\<close> for a text written into a float column; tables with a repeated
  label or a float target column are outside this model.)
\<close>

definition at_set :: "table \<Rightarrow> nat \<Rightarrow> string \<Rightarrow> cell \<Rightarrow> table" where
  "at_set df idx col v = df\<lparr>rows := (rows df)[idx := ((rows df) ! idx)(col \<mapsto> v)]\<rparr>"

definition create_column :: "table \<Rightarrow> string \<Rightarrow> table" where
  "create_column df col =
     df\<lparr>columns := columns df @ [col], rows := map (\<lambda>r. r(col \<mapsto> CNone)) (rows df)\<rparr>"

text \<open>
  A call returns (the table it was given, updated) or raises; either way the caller's
  table is in the state of the second component. The lines the two functions print, and
  the count of updated rows that the advanced variant prints at the end, are left out:
  the model is of a standard output that accepts every line.
\<close>

datatype outcome = Returned | Raised exn




text \<open>
  The advanced variant. Normalization of the extension list:
  \<^verbatim>\<open>
  if file_extensions:
      file_extensions = [ext.lower() if ext.startswith('.') else f'.{ext.lower()}'
                         for ext in file_extensions]
  \<close>
  \<open>None\<close> and the empty list are both false and stay as they are.
\<close>

definition normalize_ext :: "string \<Rightarrow> string" where
  "normalize_ext ext = (if prefix ''.'' ext then lower ext else ''.'' @ lower ext)"

definition normalize_extensions :: "string list option \<Rightarrow> string list" where
  "normalize_extensions file_extensions = map normalize_ext (or_default file_extensions [])"

text \<open>
  \<^verbatim>\<open>
  if (file_path.is_file() and file_path.stem == file_pattern and
      (not file_extensions or file_path.suffix.lower() in file_extensions)):
      matching_files.append(file_path)
  \<close>
\<close>

definition matching_files_advanced :: "entry list \<Rightarrow> string \<Rightarrow> string list \<Rightarrow> entry list" where
  "matching_files_advanced es file_pattern file_extensions =
     filter (\<lambda>file_path. is_file file_path
                \<and> path_stem (ename file_path) = file_pattern
                \<and> (file_extensions = [] \<or> lower (path_suffix (ename file_path)) \<in> set file_extensions))
       es"

text \<open>
  Selection by extension priority:
  \<^verbatim>\<open>
  for ext in file_extensions:
      for file_path in matching_files:
          if file_path.suffix.lower() == ext:
              df.at[idx, target_col_name] = str(file_path.absolute())
              break
      else:
          continue
      break
  \<close>
  The inner loop finds the first file with the extension, the outer loop the first
  extension for which the inner loop finds one.
\<close>

fun first_with_ext :: "string \<Rightarrow> entry list \<Rightarrow> entry option" where
  "first_with_ext ext [] = None"
| "first_with_ext ext (file_path # matching_files) =
     (if lower (path_suffix (ename file_path)) = ext then Some file_path
      else first_with_ext ext matching_files)"

fun select_by_extension :: "string list \<Rightarrow> entry list \<Rightarrow> entry option" where
  "select_by_extension [] matching_files = None"
| "select_by_extension (ext # file_extensions) matching_files =
     (case first_with_ext ext matching_files of
        Some file_path \<Rightarrow> Some file_path
      | None \<Rightarrow> select_by_extension file_extensions matching_files)"

text \<open>
  The choice of a row: nothing without a match, the extension priority with an extension
  list, and otherwise \<^verbatim>\<open>sorted(matching_files)[0]\<close>, the entry whose name comes first.
\<close>

definition select_file :: "string list \<Rightarrow> entry list \<Rightarrow> entry option" where
  "select_file file_extensions matching_files =
     (if matching_files = [] then None
      else if file_extensions \<noteq> [] then select_by_extension file_extensions matching_files
      else (case sort_key ename matching_files of
              selected_file # others \<Rightarrow> Some selected_file
            | [] \<Rightarrow> None))"

text \<open>
  The loop over the rows; \<^verbatim>\<open>iterdir\<close> is called for every row, and raises at the first
  row when the search path is not a directory.
\<close>

fun locate_rows_advanced ::
  "search_dir \<Rightarrow> string \<Rightarrow> string \<Rightarrow> string list \<Rightarrow> (nat \<times> row) list \<Rightarrow> table
     \<Rightarrow> outcome \<times> table" where
  "locate_rows_advanced target_dir target_col_name file_name_prefix file_extensions [] df =
     (Returned, df)"
| "locate_rows_advanced target_dir target_col_name file_name_prefix file_extensions
     ((idx, row) # rest) df =
     (case row ''test_idx'' of
        None \<Rightarrow> (Raised KeyError, df)
      | Some test_id \<Rightarrow>
     (let file_pattern = file_name_prefix @ cell_str test_id
      in case iterdir target_dir of
           Inl e \<Rightarrow> (Raised e, df)
         | Inr es \<Rightarrow>
             locate_rows_advanced target_dir target_col_name file_name_prefix file_extensions rest
               (case select_file file_extensions
                       (matching_files_advanced es file_pattern file_extensions) of
                  Some file_path \<Rightarrow>
                    at_set df idx target_col_name (CStr (absolute target_dir (ename file_path)))
                | None \<Rightarrow> df)))"

definition update_file_paths_advanced ::
  "table \<Rightarrow> string \<Rightarrow> search_dir \<Rightarrow> string \<Rightarrow> string list option \<Rightarrow> bool \<Rightarrow> outcome \<times> table" where
  "update_file_paths_advanced df target_col_name target_dir file_name_prefix file_extensions
     create_col =
     (if ''test_idx'' \<notin> set (columns df) then (Raised ValueError, df)
      else if target_col_name \<notin> set (columns df) \<and> \<not> create_col then (Raised ValueError, df)
      else
        (let df1 = (if target_col_name \<notin> set (columns df)
                    then create_column df target_col_name else df)
         in if kind target_dir = Missing then (Raised FileNotFoundError, df1)
            else locate_rows_advanced target_dir target_col_name file_name_prefix
                   (normalize_extensions file_extensions) (enumerate 0 (rows df1)) df1))"


text \<open>Stand-ins for the library and the outside world, for the concrete runs below.\<close>

definition stub_env :: env where
  "stub_env =
     \<lparr>open_read = (\<lambda>path. if path = ''input.yaml'' then Inr ''a: {b: hello}''
                           else if path = ''null.yaml'' then Inr ''a: {b: null}''
                           else Inl FileNotFoundError),
      yaml_safe_load = (\<lambda>text.
         if text = ''a: {b: hello}''
         then Inr (PDict [(KStr ''a'', PDict [(KStr ''b'', PStr ''hello'')])])
         else if text = ''a: {b: null}''
         then Inr (PDict [(KStr ''a'', PDict [(KStr ''b'', PNone)])])
         else Inl YAMLError),
      py_str = (\<lambda>v. case v of PStr s \<Rightarrow> s | _ \<Rightarrow> ''?''),
      json_dumps = (\<lambda>d. case d of
         [(KStr k, PStr s)] \<Rightarrow> Inr (''{'' @ k @ '': '' @ s @ ''}'')
       | _ \<Rightarrow> Inl TypeError),
      json_loads = (\<lambda>text. Inr [(KStr ''parsed'', PStr text)]),
      http_request = (\<lambda>req. Inr \<lparr>status_code = 200, content = ''echo''\<rparr>),
      raise_for_status = (\<lambda>resp. if 400 \<le> status_code resp then Some RequestException else None),
      response_json = (\<lambda>resp. Inr (PDict [(KStr ''echo'', PStr ''hello'')])),
      open_write = (\<lambda>path. None),
      yaml_dump = (\<lambda>v. Inr ''x: {y: {echo: hello}}'')\<rparr>"

text \<open>
  A standard output that cannot encode the text of one path: the line that shows the
  path raises, every other line is accepted.
\<close>

definition refusing_stdout :: "string \<Rightarrow> msg \<Rightarrow> exn option" where
  "refusing_stdout path m = (if m = FileNotFound path then Some UnicodeEncodeError else None)"

definition example_call :: call where
  "example_call =
     \<lparr>input_yaml_path = ''input.yaml'', output_yaml_path = ''output.yaml'',
      input_keys = [KStr ''a'', KStr ''b''], output_keys = [KStr ''x'', KStr ''y''],
      api_url = ''http://service'', api_method = ''post'', api_headers = None,
      api_params = None, request_body_template = None\<rparr>"

text \<open>
  A table of two rows, the second with a path already in its target cell; the same table
  without the target column; and a directory with two files for the first row.
\<close>

definition example_table :: table where
  "example_table =
     \<lparr>columns = [''test_idx'', ''file_path''],
      rows = [[''test_idx'' \<mapsto> CInt 7, ''file_path'' \<mapsto> CNone],
              [''test_idx'' \<mapsto> CInt 8, ''file_path'' \<mapsto> CStr ''old'']]\<rparr>"



section \<open>Properties of extraction and construction\<close>

lemma get_nested_value_resolve:
  "get_nested_value d ks = (case resolve d ks of Some v \<Rightarrow> v | None \<Rightarrow> PNone)"
  by (induction d ks rule: resolve.induct) (auto split: option.splits)

lemma skeleton_append: "skeleton (ks @ ks') leaf = skeleton ks (skeleton ks' leaf)"
  by (induction ks) simp_all

lemma store_at_skeleton:
  "store_at (skeleton ks (PDict d)) ks k v = skeleton ks (PDict (dict_set d k v))"
  by (induction ks) simp_all

lemma descend_skeleton:
  "descend ks (skeleton cur (PDict []), cur) = (skeleton (cur @ ks) (PDict []), cur @ ks)"
proof (induction ks arbitrary: cur)
  case Nil
  show ?case by simp
next
  case (Cons k ks)
  have "store_at (skeleton cur (PDict [])) cur k (PDict []) = skeleton (cur @ [k]) (PDict [])"
    by (simp add: store_at_skeleton skeleton_append)
  with Cons.IH [of "cur @ [k]"] show ?case by simp
qed

lemma create_nested_structure_skeleton: "create_nested_structure ks v = skeleton ks v"
proof (cases "ks = []")
  case True
  then show ?thesis by (simp add: create_nested_structure_def)
next
  case False
  have "descend (butlast ks) (PDict [], []) = (skeleton (butlast ks) (PDict []), butlast ks)"
    using descend_skeleton [of "butlast ks" "[]"] by simp
  then have "create_nested_structure ks v = skeleton (butlast ks) (PDict [(last ks, v)])"
    using False by (simp add: create_nested_structure_def store_at_skeleton)
  also have "\<dots> = skeleton (butlast ks @ [last ks]) v"
    by (simp add: skeleton_append)
  finally show ?thesis using False by simp
qed

lemma get_nested_value_skeleton: "get_nested_value (skeleton ks v) ks = v"
  by (induction ks) simp_all

section \<open>Claims about extraction and construction\<close>

text \<open>
  C1 (as stated: an empty key path is invalid for extraction, valid for construction).
  The loop of \<open>get_nested_value\<close> does not run on an empty key list, so the call returns
  the document it was given, which is a not-found signal only when the document itself is
  null. The document \<^verbatim>\<open>{"a": 1}\<close> is returned as it is.
\<close>

theorem empty_path_extraction_counterexample:
  "get_nested_value (PDict [(KStr ''a'', PInt 1)]) [] \<noteq> PNone"
  by simp

text \<open>
  C1 (amended): an empty key path is valid for both operations. Extraction returns the
  whole document unchanged, construction returns the raw value as the whole document.
\<close>

theorem empty_path_both_valid:
  "get_nested_value d [] = d \<and> create_nested_structure [] v = v"
  by (simp add: create_nested_structure_def)

text \<open>
  C4: when a key path \<open>P\<close> resolves in a document \<open>D\<close> to a value \<open>v\<close>, extraction
  returns \<open>v\<close>, reconstruction from the extracted value is the minimal nested skeleton
  for \<open>P\<close> with \<open>v\<close> at its leaf, and extracting from the reconstruction along \<open>P\<close> gives
  \<open>v\<close> back.
\<close>

theorem extract_construct_roundtrip:
  assumes "resolve D P = Some v"
  shows "get_nested_value D P = v
    \<and> create_nested_structure P (get_nested_value D P) = skeleton P v
    \<and> get_nested_value (create_nested_structure P (get_nested_value D P)) P = v"
proof -
  have "get_nested_value D P = v"
    using assms by (simp add: get_nested_value_resolve)
  then show ?thesis
    by (simp add: create_nested_structure_skeleton get_nested_value_skeleton)
qed

theorem extract_construct_roundtrip_witness:
  "resolve (PDict [(KStr ''a'', PDict [(KStr ''b'', PStr ''hello'')])]) [KStr ''a'', KStr ''b'']
     = Some (PStr ''hello'')
   \<and> create_nested_structure [KStr ''a'', KStr ''b'']
        (get_nested_value (PDict [(KStr ''a'', PDict [(KStr ''b'', PStr ''hello'')])])
           [KStr ''a'', KStr ''b''])
     = PDict [(KStr ''a'', PDict [(KStr ''b'', PStr ''hello'')])]
   \<and> get_nested_value
        (create_nested_structure [KStr ''a'', KStr ''b'']
           (get_nested_value (PDict [(KStr ''a'', PDict [(KStr ''b'', PStr ''hello'')])])
              [KStr ''a'', KStr ''b'']))
        [KStr ''a'', KStr ''b'']
     = PStr ''hello''"
proof -
  have r: "resolve (PDict [(KStr ''a'', PDict [(KStr ''b'', PStr ''hello'')])])
      [KStr ''a'', KStr ''b''] = Some (PStr ''hello'')"
    by simp
  show ?thesis
    using r extract_construct_roundtrip [OF r] by simp
qed

section \<open>Properties of the substitution\<close>

lemma replace_not_prefix:
  assumes "old \<noteq> []" and "hd old \<notin> set (tl old)" and "a \<noteq> []" and "\<not> prefix old a"
  shows "\<not> prefix old (a @ old @ b)"
proof
  assume "prefix old (a @ old @ b)"
  then obtain z where z: "a @ (old @ b) = old @ z"
    by (auto simp: prefix_def)
  then obtain u where u: "(a = old @ u \<and> u @ (old @ b) = z) \<or> (a @ u = old \<and> old @ b = u @ z)"
    unfolding append_eq_append_conv2 by blast
  from assms(4) have "\<And>u. a \<noteq> old @ u"
    by (auto simp: prefix_def)
  with u have old: "a @ u = old" and ob: "old @ b = u @ z"
    by auto
  from old assms(4) have "u \<noteq> []"
    by auto
  then obtain x u' where xu: "u = x # u'"
    by (cases u) auto
  from ob xu assms(1) have "hd old = x"
    by (cases old) auto
  moreover from old xu assms(3) have "x \<in> set (tl old)"
    by (cases a) auto
  ultimately show False
    using assms(2) by simp
qed

lemma replace_occurrence:
  assumes "old \<noteq> []" and "hd old \<notin> set (tl old)"
  shows "replace (a @ old @ b) old new = replace a old new @ new @ replace b old new"
  using assms
proof (induction a old new rule: replace.induct)
  case (1 s old new)
  show ?case
  proof (cases "prefix old s")
    case True
    then obtain s' where s': "s = old @ s'"
      by (auto simp: prefix_def)
    have "replace (s @ old @ b) old new = new @ replace (s' @ old @ b) old new"
      using "1.prems"(1) s' by (subst replace.simps) simp
    moreover have "replace s old new = new @ replace s' old new"
      using "1.prems"(1) s' by (subst replace.simps) simp
    moreover have "replace (s' @ old @ b) old new = replace s' old new @ new @ replace b old new"
      using "1.IH"(1) [OF "1.prems"(1) True] "1.prems" s' by simp
    ultimately show ?thesis by simp
  next
    case False
    show ?thesis
    proof (cases s)
      case Nil
      have "replace (old @ b) old new = new @ replace b old new"
        using "1.prems"(1) by (subst replace.simps) simp
      moreover have "replace [] old new = []"
        using "1.prems"(1) by (subst replace.simps) simp
      ultimately show ?thesis using Nil by simp
    next
      case (Cons c cs)
      have np: "\<not> prefix old ((c # cs) @ old @ b)"
        using replace_not_prefix [OF "1.prems" _ False, of b] Cons by simp
      have "replace (s @ old @ b) old new = c # replace (cs @ old @ b) old new"
        using "1.prems"(1) np Cons by (subst replace.simps) simp
      moreover have "replace s old new = c # replace cs old new"
        using "1.prems"(1) False Cons by (subst replace.simps) simp
      moreover have "replace (cs @ old @ b) old new = replace cs old new @ new @ replace b old new"
        using "1.IH"(2) [OF "1.prems"(1) False Cons] "1.prems" by simp
      ultimately show ?thesis by simp
    qed
  qed
qed

lemma substitute_occurrence:
  "substitute env (a @ ''{input_text}'' @ b) v
     = substitute env a v @ py_str env v @ substitute env b v"
  unfolding substitute_def by (rule replace_occurrence) simp_all

text \<open>
  C6: with a (non-empty) body template, the text handed to \<^verbatim>\<open>json.loads\<close> is the
  serialized template in which the placeholder is replaced by \<^verbatim>\<open>str(input_text)\<close> at
  every occurrence: wherever the serialized form splits as \<open>a\<close>, placeholder, \<open>b\<close>, the
  parsed text is the substituted \<open>a\<close>, the stringified value, and the substituted \<open>b\<close>,
  so the occurrences inside \<open>a\<close> and \<open>b\<close> are replaced by the same text in turn.
\<close>

theorem placeholder_substituted_everywhere:
  assumes "request_body_template c = Some (item # items)"
    and "json_dumps env (item # items) = Inr (a @ ''{input_text}'' @ b)"
  shows "build_request_body env (request_body_template c) v
     = json_loads env (substitute env a v @ py_str env v @ substitute env b v)"
proof -
  have "build_request_body env (Some (item # items)) v
      = json_loads env (substitute env (a @ ''{input_text}'' @ b) v)"
    by (simp only: build_request_body_def assms(2) option.case list.case sum.case)
  then show ?thesis
    by (simp only: assms(1) substitute_occurrence)
qed

lemma stub_a: "substitute stub_env ''{q: '' (PStr ''hi'') = ''{q: ''"
  by code_simp

lemma stub_b: "substitute stub_env '' and {input_text}}'' (PStr ''hi'') = '' and hi}''"
  by code_simp

theorem placeholder_substituted_everywhere_witness:
  "request_body_template
      \<lparr>input_yaml_path = ''input.yaml'', output_yaml_path = ''output.yaml'',
       input_keys = [KStr ''a'', KStr ''b''], output_keys = [KStr ''x'', KStr ''y''],
       api_url = ''http://service'', api_method = ''post'', api_headers = None,
       api_params = None,
       request_body_template = Some [(KStr ''q'', PStr ''{input_text} and {input_text}'')]\<rparr>
     = Some [(KStr ''q'', PStr ''{input_text} and {input_text}'')]
   \<and> json_dumps stub_env [(KStr ''q'', PStr ''{input_text} and {input_text}'')]
     = Inr (''{q: '' @ ''{input_text}'' @ '' and {input_text}}'')
   \<and> build_request_body stub_env (Some [(KStr ''q'', PStr ''{input_text} and {input_text}'')])
        (PStr ''hi'')
     = Inr [(KStr ''parsed'', PStr ''{q: hi and hi}'')]"
proof -
  let ?c = "\<lparr>input_yaml_path = ''input.yaml'', output_yaml_path = ''output.yaml'',
       input_keys = [KStr ''a'', KStr ''b''], output_keys = [KStr ''x'', KStr ''y''],
       api_url = ''http://service'', api_method = ''post'', api_headers = None,
       api_params = None,
       request_body_template = Some [(KStr ''q'', PStr ''{input_text} and {input_text}'')]\<rparr>"
  have t: "request_body_template ?c = Some [(KStr ''q'', PStr ''{input_text} and {input_text}'')]"
    by simp
  have d: "json_dumps stub_env [(KStr ''q'', PStr ''{input_text} and {input_text}'')]
     = Inr (''{q: '' @ ''{input_text}'' @ '' and {input_text}}'')"
    by (simp add: stub_env_def)
  have "build_request_body stub_env (request_body_template ?c) (PStr ''hi'')
     = json_loads stub_env (''{q: '' @ py_str stub_env (PStr ''hi'') @ '' and hi}'')"
    using placeholder_substituted_everywhere [OF t d, of "PStr ''hi''"]
    by (simp only: stub_a stub_b)
  then show ?thesis
    using t d by (simp add: stub_env_def)
qed

section \<open>Properties of the Nested-Value Bridge\<close>

lemma handlers_catch:
  "\<exists>m. diagnostic m \<and> handlers c e fx = (Inr False, say m fx)"
proof (cases e)
  case FileNotFoundError
  then show ?thesis
    by (intro exI [of _ "FileNotFound (input_yaml_path c)"]) (simp add: handlers_def)
next
  case RequestException
  then show ?thesis
    by (intro exI [of _ "ApiError e"]) (simp add: handlers_def)
next
  case YAMLError
  then show ?thesis
    by (intro exI [of _ "YamlError e"]) (simp add: handlers_def)
next
  case NotADirectoryError
  then show ?thesis
    by (intro exI [of _ "Unexpected e"]) (simp add: handlers_def)
next
  case ValueError
  then show ?thesis
    by (intro exI [of _ "Unexpected e"]) (simp add: handlers_def)
next
  case TypeError
  then show ?thesis
    by (intro exI [of _ "Unexpected e"]) (simp add: handlers_def)
next
  case KeyError
  then show ?thesis
    by (intro exI [of _ "Unexpected e"]) (simp add: handlers_def)
next
  case UnicodeEncodeError
  then show ?thesis
    by (intro exI [of _ "Unexpected e"]) (simp add: handlers_def)
next
  case OtherException
  then show ?thesis
    by (intro exI [of _ "Unexpected e"]) (simp add: handlers_def)
qed

lemma save_response_Inr:
  assumes "save_response env c resp fx = (Inr b, fx')"
  shows "b \<and> raise_for_status env resp = None
    \<and> (\<exists>api_result out.
          response_json env resp = Inr api_result
        \<and> open_write env (output_yaml_path c) = None
        \<and> yaml_dump env (create_nested_structure (output_keys c) api_result) = Inr out
        \<and> written fx' = written fx @ [(output_yaml_path c, []), (output_yaml_path c, out)]
        \<and> printed fx' = printed fx
             @ [ResponseStatus (status_code resp), ResponseBody api_result,
                Saved (output_yaml_path c)])"
  using assms
  by (auto simp: save_response_def say_def Let_def split: option.splits sum.splits)

lemma save_response_frame:
  assumes "save_response env c resp fx = (r, fx')"
  shows "sent fx' = sent fx \<and> caller_params fx' = caller_params fx"
  using assms
  by (auto simp: save_response_def say_def Let_def split: option.splits sum.splits)


lemma dispatch_sent:
  assumes "dispatch env c headers request_body fx = (r, fx')"
  shows "\<exists>req. sent fx' = sent fx @ [req] \<and> r = http_request env req
    \<and> printed fx' = printed fx \<and> written fx' = written fx"
  using assms
  by (auto simp: dispatch_def Let_def split: if_splits option.splits list.splits)

lemma try_body_not_found:
  assumes "load_input env (input_yaml_path c) = Inr input_data"
    and "get_nested_value input_data (input_keys c) = PNone"
  shows "try_body env c fx =
    (case join_keys (input_keys c) of
       Inl e \<Rightarrow> (Inl e, fx)
     | Inr path \<Rightarrow> (Inr False, say (KeyPathNotFound path) fx))"
  using assms by (simp add: try_body_def)

lemma try_body_found:
  assumes "load_input env (input_yaml_path c) = Inr input_data"
    and "get_nested_value input_data (input_keys c) \<noteq> PNone"
    and "build_request_body env (request_body_template c)
           (get_nested_value input_data (input_keys c)) = Inr request_body"
  shows "try_body env c fx =
    (case dispatch env c
            (or_default (api_headers c) [(''Content-Type'', ''application/json'')])
            request_body
            (say (ApiCall (api_method c) (api_url c))
               (say (Extracted (get_nested_value input_data (input_keys c))) fx)) of
       (Inl e, fx2) \<Rightarrow> (Inl e, fx2)
     | (Inr resp, fx2) \<Rightarrow> save_response env c resp fx2)"
  using assms by (simp add: try_body_def Let_def)

lemma try_body_False:
  assumes "try_body env c fx = (Inr False, fx')"
  shows "\<exists>path. fx' = say (KeyPathNotFound path) fx"
proof (cases "load_input env (input_yaml_path c)")
  case (Inl e)
  with assms show ?thesis by (simp add: try_body_def)
next
  case (Inr input_data)
  show ?thesis
  proof (cases "get_nested_value input_data (input_keys c) = PNone")
    case True
    with assms Inr show ?thesis
      by (auto simp: try_body_not_found split: sum.splits)
  next
    case False
    show ?thesis
    proof (cases "build_request_body env (request_body_template c)
           (get_nested_value input_data (input_keys c))")
      case (Inl e)
      with assms Inr False show ?thesis by (simp add: try_body_def Let_def)
    next
      case body: (Inr request_body)
      from assms show ?thesis
        unfolding try_body_found [OF Inr False body]
        by (auto split: prod.splits sum.splits dest: save_response_Inr)
    qed
  qed
qed

lemma try_body_True:
  assumes "try_body env c fx = (Inr True, fx')"
  shows "\<exists>text input_data request_body req resp api_result out.
      open_read env (input_yaml_path c) = Inr text
    \<and> yaml_safe_load env text = Inr input_data
    \<and> get_nested_value input_data (input_keys c) \<noteq> PNone
    \<and> build_request_body env (request_body_template c)
         (get_nested_value input_data (input_keys c)) = Inr request_body
    \<and> sent fx' = sent fx @ [req]
    \<and> http_request env req = Inr resp
    \<and> raise_for_status env resp = None
    \<and> response_json env resp = Inr api_result
    \<and> open_write env (output_yaml_path c) = None
    \<and> yaml_dump env (create_nested_structure (output_keys c) api_result) = Inr out
    \<and> written fx' = written fx @ [(output_yaml_path c, []), (output_yaml_path c, out)]"
proof (cases "load_input env (input_yaml_path c)")
  case (Inl e)
  with assms show ?thesis by (simp add: try_body_def)
next
  case (Inr input_data)
  then obtain src where src: "open_read env (input_yaml_path c) = Inr src"
    and load: "yaml_safe_load env src = Inr input_data"
    by (auto simp: load_input_def split: sum.splits)
  show ?thesis
  proof (cases "get_nested_value input_data (input_keys c) = PNone")
    case True
    with assms Inr show ?thesis
      by (auto simp: try_body_not_found split: sum.splits)
  next
    case False
    show ?thesis
    proof (cases "build_request_body env (request_body_template c)
           (get_nested_value input_data (input_keys c))")
      case (Inl e)
      with assms Inr False show ?thesis by (simp add: try_body_def Let_def)
    next
      case body: (Inr request_body)
      let ?fx1 = "say (ApiCall (api_method c) (api_url c))
               (say (Extracted (get_nested_value input_data (input_keys c))) fx)"
      obtain r fx2 where d: "dispatch env c
            (or_default (api_headers c) [(''Content-Type'', ''application/json'')])
            request_body ?fx1 = (r, fx2)"
        by (cases "dispatch env c
            (or_default (api_headers c) [(''Content-Type'', ''application/json'')])
            request_body ?fx1") auto
      from dispatch_sent [OF d] obtain req where req: "sent fx2 = sent ?fx1 @ [req]"
        "r = http_request env req" "written fx2 = written ?fx1"
        by blast
      from assms obtain resp where resp: "r = Inr resp"
        and save: "save_response env c resp fx2 = (Inr True, fx')"
        unfolding try_body_found [OF Inr False body] d
        by (cases r) auto
      from save_response_Inr [OF save] obtain api_result out where
        ok: "raise_for_status env resp = None" "response_json env resp = Inr api_result"
          "open_write env (output_yaml_path c) = None"
          "yaml_dump env (create_nested_structure (output_keys c) api_result) = Inr out"
          "written fx' = written fx2 @ [(output_yaml_path c, []), (output_yaml_path c, out)]"
        by blast
      have h: "http_request env req = Inr resp"
        using req(2) resp by simp
      have s: "sent fx' = sent fx @ [req]"
        using save_response_frame [OF save] req(1) by (simp add: say_def)
      have w: "written fx' = written fx @ [(output_yaml_path c, []), (output_yaml_path c, out)]"
        using ok(5) req(3) by (simp add: say_def)
      from src load False body s h ok(1-4) w show ?thesis
        by blast
    qed
  qed
qed

section \<open>Claims about the Nested-Value Bridge\<close>

text \<open>
  On a standard output that accepts every line the function returns a boolean, whatever
  the library calls and the outside world do. When it returns \<open>False\<close> the last line it
  printed is a diagnostic. It returns \<open>True\<close> only when the whole sequence succeeded:
  the input file was read and parsed, the key path gave a value other than \<open>None\<close>, the
  request body was built, the one request that was sent returned a response that passed
  the status check and parsed, and the output file was opened and the document dumped
  into it.
\<close>

lemma process_returns_on_accepting_stdout:
  "\<exists>b fx. process_yaml_with_api env c = (Inr b, fx)
     \<and> (\<not> b \<longrightarrow> printed fx \<noteq> [] \<and> diagnostic (last (printed fx)))
     \<and> (b \<longrightarrow>
          (\<exists>src input_data request_body req resp api_result out.
              open_read env (input_yaml_path c) = Inr src
            \<and> yaml_safe_load env src = Inr input_data
            \<and> get_nested_value input_data (input_keys c) \<noteq> PNone
            \<and> build_request_body env (request_body_template c)
                 (get_nested_value input_data (input_keys c)) = Inr request_body
            \<and> sent fx = [req]
            \<and> http_request env req = Inr resp
            \<and> raise_for_status env resp = None
            \<and> response_json env resp = Inr api_result
            \<and> open_write env (output_yaml_path c) = None
            \<and> yaml_dump env (create_nested_structure (output_keys c) api_result) = Inr out
            \<and> written fx = [(output_yaml_path c, []), (output_yaml_path c, out)]))"
proof -
  let ?fx0 = "\<lparr>printed = [], sent = [], written = [], caller_params = api_params c\<rparr>"
  obtain r fx1 where t: "try_body env c ?fx0 = (r, fx1)"
    by (cases "try_body env c ?fx0") auto
  show ?thesis
  proof (cases r)
    case (Inl e)
    from handlers_catch [of c e fx1] obtain m where
      m: "diagnostic m" "handlers c e fx1 = (Inr False, say m fx1)"
      by blast
    have "process_yaml_with_api env c = (Inr False, say m fx1)"
      using t Inl m(2) by (simp add: process_yaml_with_api_def)
    moreover have "printed (say m fx1) \<noteq> [] \<and> diagnostic (last (printed (say m fx1)))"
      using m(1) by (simp add: say_def)
    ultimately show ?thesis
      by (intro exI [of _ False] exI [of _ "say m fx1"]) simp
  next
    case (Inr b)
    have p: "process_yaml_with_api env c = (Inr b, fx1)"
      using t Inr by (simp add: process_yaml_with_api_def)
    show ?thesis
    proof (cases b)
      case False
      from try_body_False [of env c ?fx0 fx1] t Inr False
      obtain path where "fx1 = say (KeyPathNotFound path) ?fx0"
        by auto
      then have "printed fx1 \<noteq> [] \<and> diagnostic (last (printed fx1))"
        by (simp add: say_def)
      with p False show ?thesis
        by (intro exI [of _ False] exI [of _ fx1]) simp
    next
      case True
      from try_body_True [of env c ?fx0 fx1] t Inr True
      have "\<exists>src input_data request_body req resp api_result out.
              open_read env (input_yaml_path c) = Inr src
            \<and> yaml_safe_load env src = Inr input_data
            \<and> get_nested_value input_data (input_keys c) \<noteq> PNone
            \<and> build_request_body env (request_body_template c)
                 (get_nested_value input_data (input_keys c)) = Inr request_body
            \<and> sent fx1 = [req]
            \<and> http_request env req = Inr resp
            \<and> raise_for_status env resp = None
            \<and> response_json env resp = Inr api_result
            \<and> open_write env (output_yaml_path c) = None
            \<and> yaml_dump env (create_nested_structure (output_keys c) api_result) = Inr out
            \<and> written fx1 = [(output_yaml_path c, []), (output_yaml_path c, out)]"
        by simp
      with p True show ?thesis
        by (intro exI [of _ True] exI [of _ fx1]) simp
    qed
  qed
qed

lemma upper_post: "upper ''post'' = ''POST''"
  by code_simp


lemma process_runs:
  "process_yaml_with_api stub_env example_call
     = (Inr True,
        \<lparr>printed = [Extracted (PStr ''hello''), ApiCall ''post'' ''http://service'',
                    ResponseStatus 200, ResponseBody (PDict [(KStr ''echo'', PStr ''hello'')]),
                    Saved ''output.yaml''],
         sent = [\<lparr>req_method = ''POST'', req_url = ''http://service'',
                   req_headers = [(''Content-Type'', ''application/json'')],
                   req_params = None,
                   req_json = Some [(KStr ''text'', PStr ''hello'')]\<rparr>],
         written = [(''output.yaml'', []), (''output.yaml'', ''x: {y: {echo: hello}}'')],
         caller_params = None\<rparr>)
   \<and> process_yaml_with_api stub_env (example_call\<lparr>input_yaml_path := ''missing.yaml''\<rparr>)
     = (Inr False,
        \<lparr>printed = [FileNotFound ''missing.yaml''], sent = [], written = [],
         caller_params = None\<rparr>)"
proof -
  have ok: "process_yaml_with_api stub_env example_call
     = (Inr True,
        \<lparr>printed = [Extracted (PStr ''hello''), ApiCall ''post'' ''http://service'',
                    ResponseStatus 200, ResponseBody (PDict [(KStr ''echo'', PStr ''hello'')]),
                    Saved ''output.yaml''],
         sent = [\<lparr>req_method = ''POST'', req_url = ''http://service'',
                   req_headers = [(''Content-Type'', ''application/json'')],
                   req_params = None,
                   req_json = Some [(KStr ''text'', PStr ''hello'')]\<rparr>],
         written = [(''output.yaml'', []), (''output.yaml'', ''x: {y: {echo: hello}}'')],
         caller_params = None\<rparr>)"
    by (simp add: process_yaml_with_api_def try_body_def load_input_def stub_env_def
        example_call_def build_request_body_def dispatch_def save_response_def say_def
        Let_def upper_post)
  have missing:
    "process_yaml_with_api stub_env (example_call\<lparr>input_yaml_path := ''missing.yaml''\<rparr>)
     = (Inr False,
        \<lparr>printed = [FileNotFound ''missing.yaml''], sent = [], written = [],
         caller_params = None\<rparr>)"
    by (simp add: process_yaml_with_api_def try_body_def load_input_def stub_env_def
        example_call_def handlers_def say_def)
  show ?thesis
    using ok missing by simp
qed

section \<open>The standard output as a parameter\<close>

lemma emit_accepting: "emit (\<lambda>m. None) m fx = Inr (say m fx)"
  by (simp add: emit_def)

lemma save_response_on_accepting:
  "save_response_on (\<lambda>m. None) env c resp fx = save_response env c resp fx"
  by (simp add: save_response_on_def save_response_def emit_accepting Let_def
      split: option.splits sum.splits)

lemma try_body_on_accepting: "try_body_on (\<lambda>m. None) env c fx = try_body env c fx"
  by (simp add: try_body_on_def try_body_def emit_accepting save_response_on_accepting Let_def
      split: sum.splits prod.splits)

lemma handlers_on_accepting: "handlers_on (\<lambda>m. None) c e fx = handlers c e fx"
  by (simp add: handlers_on_def handlers_def print_return_False_def emit_accepting)

text \<open>
  On a standard output that accepts every line, the function with the standard output
  as a parameter is \<open>process_yaml_with_api\<close>.
\<close>

lemma process_on_accepting:
  "process_yaml_with_api_on (\<lambda>m. None) env c = process_yaml_with_api env c"
  by (simp add: process_yaml_with_api_on_def process_yaml_with_api_def try_body_on_accepting
      handlers_on_accepting split: prod.splits sum.splits)

text \<open>
  An exception reaches the caller only from the print of a handler: the exception is the
  one that the standard output raises for a diagnostic line.
\<close>

lemma print_return_False_cases:
  "print_return_False stdout m fx =
     (case stdout m of Some e \<Rightarrow> (Inl e, fx) | None \<Rightarrow> (Inr False, say m fx))"
  by (simp add: print_return_False_def emit_def split: option.splits)

lemma raises_only_from_handler_print:
  assumes "process_yaml_with_api_on stdout env c = (Inl e, fx)"
  shows "\<exists>m. diagnostic m \<and> stdout m = Some e"
proof -
  let ?fx0 = "\<lparr>printed = [], sent = [], written = [], caller_params = api_params c\<rparr>"
  obtain r fx1 where t: "try_body_on stdout env c ?fx0 = (r, fx1)"
    by (cases "try_body_on stdout env c ?fx0") auto
  show ?thesis
  proof (cases r)
    case (Inr b)
    with assms t show ?thesis
      by (simp add: process_yaml_with_api_on_def)
  next
    case (Inl e0)
    with assms t have h: "handlers_on stdout c e0 fx1 = (Inl e, fx)"
      by (simp add: process_yaml_with_api_on_def)
    show ?thesis
    proof (cases "isinstance e0 FileNotFoundError_class")
      case True
      with h have "stdout (FileNotFound (input_yaml_path c)) = Some e"
        by (auto simp: handlers_on_def print_return_False_cases split: option.splits)
      then show ?thesis
        by (intro exI [of _ "FileNotFound (input_yaml_path c)"]) simp
    next
      case nf: False
      show ?thesis
      proof (cases "isinstance e0 RequestException_class")
        case True
        with h nf have "stdout (ApiError e0) = Some e"
          by (auto simp: handlers_on_def print_return_False_cases split: option.splits)
        then show ?thesis
          by (intro exI [of _ "ApiError e0"]) simp
      next
        case nr: False
        show ?thesis
        proof (cases "isinstance e0 YAMLError_class")
          case True
          with h nf nr have "stdout (YamlError e0) = Some e"
            by (auto simp: handlers_on_def print_return_False_cases split: option.splits)
          then show ?thesis
            by (intro exI [of _ "YamlError e0"]) simp
        next
          case False
          with h nf nr have "stdout (Unexpected e0) = Some e"
            by (auto simp: handlers_on_def print_return_False_cases split: option.splits)
          then show ?thesis
            by (intro exI [of _ "Unexpected e0"]) simp
        qed
      qed
    qed
  qed
qed

text \<open>
  C5 (the code at a failing input): the input path does not exist and holds a byte that
  the standard output cannot encode. \<^verbatim>\<open>open\<close> raises \<open>FileNotFoundError\<close>, the handler
  prints the line with the path, the print raises \<open>UnicodeEncodeError\<close>, and the call
  raises it to its caller instead of returning \<open>False\<close>.
\<close>

theorem handler_print_escapes:
  "process_yaml_with_api_on (refusing_stdout (CHR 0xFF # ''.yaml'')) stub_env
     (example_call\<lparr>input_yaml_path := CHR 0xFF # ''.yaml''\<rparr>)
   = (Inl UnicodeEncodeError,
      \<lparr>printed = [], sent = [], written = [], caller_params = None\<rparr>)"
  by (simp add: process_yaml_with_api_on_def try_body_on_def load_input_def stub_env_def
      example_call_def handlers_on_def print_return_False_def emit_def refusing_stdout_def)

section \<open>Mappings\<close>



lemma process_not_found:
  assumes "load_input env (input_yaml_path c) = Inr input_data"
    and "get_nested_value input_data (input_keys c) = PNone"
  shows "process_yaml_with_api env c =
    (case join_keys (input_keys c) of
       Inl e \<Rightarrow>
         handlers c e \<lparr>printed = [], sent = [], written = [], caller_params = api_params c\<rparr>
     | Inr path \<Rightarrow>
         (Inr False,
          say (KeyPathNotFound path)
            \<lparr>printed = [], sent = [], written = [], caller_params = api_params c\<rparr>))"
  by (simp add: process_yaml_with_api_def try_body_not_found [OF assms] split: sum.splits)

text \<open>
  C9: \<open>get_nested_value\<close> answers \<open>None\<close> both for a path that does not resolve and for a
  path that resolves to null. When the input key path resolves to null,
  \<open>process_yaml_with_api\<close> returns \<open>False\<close> and sends no request, and its whole result
  is the one it gives for any document in which the path does not resolve.
\<close>

theorem null_leaf_is_not_found:
  assumes "load_input env (input_yaml_path c) = Inr input_data"
    and "resolve input_data (input_keys c) = Some PNone"
  shows "get_nested_value input_data (input_keys c) = PNone
    \<and> fst (process_yaml_with_api env c) = Inr False
    \<and> sent (snd (process_yaml_with_api env c)) = []
    \<and> (\<forall>env' other_data.
          load_input env' (input_yaml_path c) = Inr other_data
          \<and> resolve other_data (input_keys c) = None
          \<longrightarrow> process_yaml_with_api env' c = process_yaml_with_api env c)"
proof -
  let ?fx0 = "\<lparr>printed = [], sent = [], written = [], caller_params = api_params c\<rparr>"
  have g: "get_nested_value input_data (input_keys c) = PNone"
    using assms(2) by (simp add: get_nested_value_resolve)
  note p = process_not_found [OF assms(1) g]
  have r: "fst (process_yaml_with_api env c) = Inr False
      \<and> sent (snd (process_yaml_with_api env c)) = []"
  proof (cases "join_keys (input_keys c)")
    case (Inl e)
    from handlers_catch [of c e ?fx0] obtain m where
      "handlers c e ?fx0 = (Inr False, say m ?fx0)"
      by blast
    with p Inl show ?thesis by (simp add: say_def)
  next
    case (Inr path)
    with p show ?thesis by (simp add: say_def)
  qed
  have "process_yaml_with_api env' c = process_yaml_with_api env c"
    if "load_input env' (input_yaml_path c) = Inr other_data"
      and "resolve other_data (input_keys c) = None" for env' other_data
  proof -
    have "get_nested_value other_data (input_keys c) = PNone"
      using that(2) by (simp add: get_nested_value_resolve)
    from process_not_found [OF that(1) this] p show ?thesis
      by simp
  qed
  with g r show ?thesis by blast
qed

theorem null_leaf_is_not_found_witness:
  "load_input stub_env (input_yaml_path (example_call\<lparr>input_yaml_path := ''null.yaml''\<rparr>))
     = Inr (PDict [(KStr ''a'', PDict [(KStr ''b'', PNone)])])
   \<and> resolve (PDict [(KStr ''a'', PDict [(KStr ''b'', PNone)])])
        (input_keys (example_call\<lparr>input_yaml_path := ''null.yaml''\<rparr>)) = Some PNone
   \<and> load_input (stub_env\<lparr>yaml_safe_load := \<lambda>src. Inr (PDict [(KStr ''a'', PDict [])])\<rparr>)
        (input_yaml_path (example_call\<lparr>input_yaml_path := ''null.yaml''\<rparr>))
     = Inr (PDict [(KStr ''a'', PDict [])])
   \<and> resolve (PDict [(KStr ''a'', PDict [])])
        (input_keys (example_call\<lparr>input_yaml_path := ''null.yaml''\<rparr>)) = None
   \<and> process_yaml_with_api stub_env (example_call\<lparr>input_yaml_path := ''null.yaml''\<rparr>)
     = (Inr False,
        \<lparr>printed = [KeyPathNotFound ''a -> b''], sent = [], written = [],
         caller_params = None\<rparr>)
   \<and> process_yaml_with_api
        (stub_env\<lparr>yaml_safe_load := \<lambda>src. Inr (PDict [(KStr ''a'', PDict [])])\<rparr>)
        (example_call\<lparr>input_yaml_path := ''null.yaml''\<rparr>)
     = process_yaml_with_api stub_env (example_call\<lparr>input_yaml_path := ''null.yaml''\<rparr>)"
proof -
  let ?c = "example_call\<lparr>input_yaml_path := ''null.yaml''\<rparr>"
  let ?env' = "stub_env\<lparr>yaml_safe_load := \<lambda>src. Inr (PDict [(KStr ''a'', PDict [])])\<rparr>"
  have l: "load_input stub_env (input_yaml_path ?c)
      = Inr (PDict [(KStr ''a'', PDict [(KStr ''b'', PNone)])])"
    by (simp add: load_input_def stub_env_def example_call_def)
  have r: "resolve (PDict [(KStr ''a'', PDict [(KStr ''b'', PNone)])]) (input_keys ?c)
      = Some PNone"
    by (simp add: example_call_def)
  have l': "load_input ?env' (input_yaml_path ?c) = Inr (PDict [(KStr ''a'', PDict [])])"
    by (simp add: load_input_def stub_env_def example_call_def)
  have r': "resolve (PDict [(KStr ''a'', PDict [])]) (input_keys ?c) = None"
    by (simp add: example_call_def)
  have run: "process_yaml_with_api stub_env ?c
     = (Inr False,
        \<lparr>printed = [KeyPathNotFound ''a -> b''], sent = [], written = [],
         caller_params = None\<rparr>)"
    by (simp add: process_yaml_with_api_def try_body_def load_input_def stub_env_def
        example_call_def say_def)
  from null_leaf_is_not_found [OF l r] l' r'
  have "process_yaml_with_api ?env' ?c = process_yaml_with_api stub_env ?c"
    by blast
  with l r l' r' run show ?thesis
    by simp
qed

section \<open>Requests\<close>







section \<open>Properties of the File Locator\<close>








section \<open>Claims about the File Locator\<close>









text \<open>
  The advanced variant has no check that the search path is a directory. For a path that
  is not one, the error comes from the listing of the directory at the first row, and a
  table without rows is returned without any error.
\<close>

lemma advanced_not_a_directory:
  "update_file_paths_advanced \<lparr>columns = [''test_idx'', ''file_path''], rows = []\<rparr> ''file_path''
     \<lparr>kind = NotDir, absolute = (\<lambda>name. ''/data/'' @ name)\<rparr> ''run_'' None True
   = (Returned, \<lparr>columns = [''test_idx'', ''file_path''], rows = []\<rparr>)"
  "update_file_paths_advanced example_table ''file_path''
     \<lparr>kind = NotDir, absolute = (\<lambda>name. ''/data/'' @ name)\<rparr> ''run_'' None True
   = (Raised NotADirectoryError, example_table)"
  by (simp_all add: update_file_paths_advanced_def example_table_def)

end
